theory Spec2Isabelle
  imports Main "HOL-Library.Word"
begin

section \<open>Data model of package server (server.go)\<close>

text \<open>
  Go's \<open>net.IP\<close> is a byte slice; the nil slice is the empty list. Go's \<open>int\<close> is
  modelled as \<open>int\<close>: the package only compares the integers it is given with zero and
  hands them on, it never does arithmetic on them.
\<close>

type_synonym IP = "8 word list"

text \<open>
  Error values. \<open>Errorf\<close> is \<open>fmt.Errorf\<close> with a plain message, \<open>ErrorfW\<close> is
  \<open>fmt.Errorf("<msg>: %w", err)\<close>; \<open>ParseError\<close> and \<open>AddrError\<close> are the error
  values of package net that travel through this package unchanged.
\<close>

datatype error =
    ParseError string string
  | AddrError string string
  | Errorf string
  | ErrorfW string error

text \<open>
  The outcome of a call that may return an error or panic. \<open>Panic\<close> is a Go run-time
  panic (calling a nil function value, or the explicit \<open>panic(err)\<close> of \<open>init\<close>).
\<close>

datatype 'a result = Ok 'a | Err error | Panic

text \<open>
  \<open>type options struct\<close>: every field is a pointer (or a function value), and nil is
  the unset state. \<open>'h\<close> is the type of request handlers
  (\<open>tcpserver.RequestHandlerFunc\<close>).
\<close>

record 'h options =
  host :: "IP option"
  port :: "int option"
  socketReusePort :: "bool option"
  socketFastOpen :: "bool option"
  socketFastOpenQueueLen :: "int option"
  socketDeferAccept :: "bool option"
  loops :: "int option"
  workerpoolShards :: "int option"
  allowThreadLocking :: "bool option"
  ballast :: "int option"
  handler :: "'h option"

text \<open>\<open>var opt options\<close>: the zero value, every field nil.\<close>

definition zero_options :: "'h options" where
  "zero_options =
     \<lparr> host = None, port = None, socketReusePort = None, socketFastOpen = None,
       socketFastOpenQueueLen = None, socketDeferAccept = None, loops = None,
       workerpoolShards = None, allowThreadLocking = None, ballast = None,
       handler = None \<rparr>"

text \<open>
  \<open>type Option func(option *options) error\<close>. The function receives a pointer, so a
  call yields the record as the call left it together with the returned error (nil is
  \<open>None\<close>). A value of a Go function type may be nil: that is \<open>None\<close> here.
\<close>

type_synonym 'h Option = "('h options \<Rightarrow> 'h options \<times> error option) option"

text \<open>
  The parts of the Go standard library and of the engine
  (\<open>github.com/maurice2k/tcpserver\<close>) that the package calls and that are not part of
  the repository are parameters: \<open>net.IP.UnmarshalText\<close> on a fresh \<open>net.IP\<close>, the
  \<open>String\<close> method that \<open>%s\<close> formats a \<open>net.IP\<close> with,
  \<open>net.ResolveTCPAddr("tcp", _)\<close> (only its error is used), \<open>tcpserver.NewServer\<close>
  (\<open>'e\<close> is the engine object) and the engine's \<open>Shutdown\<close>. The engine's setters
  store their argument and return, except \<open>SetBallast\<close>: it allocates the ballast,
  \<open>sizeInMiB\<close> MiB of memory, and panics when a slice of that size cannot be made.
  \<open>tcpserver_SetBallast_panics\<close> tells for which sizes it does.
\<close>

record 'e platform =
  net_IP_UnmarshalText :: "string \<Rightarrow> error + IP"
  net_IP_String :: "IP \<Rightarrow> string"
  net_ResolveTCPAddr :: "string \<Rightarrow> error option"
  tcpserver_NewServer :: "string \<Rightarrow> error + 'e"
  tcpserver_SetBallast_panics :: "int \<Rightarrow> bool"
  tcpserver_Shutdown :: "'e \<Rightarrow> int \<Rightarrow> error option"

text \<open>
  Modelled from the spec: the engine's \<open>tcpserver.ListenConfig\<close> struct, whose
  declaration is outside the repository. The spec lists its listen-time socket flags:
  reuse-port, fast-open with its queue length, and defer-accept.
\<close>

record ListenConfig =
  SocketReusePort :: bool
  SocketFastOpen :: bool
  SocketFastOpenQueueLen :: int
  SocketDeferAccept :: bool

text \<open>\<open>new(tcpserver.ListenConfig)\<close>: the zero value.\<close>

definition new_ListenConfig :: ListenConfig where
  "new_ListenConfig =
     \<lparr> SocketReusePort = False, SocketFastOpen = False, SocketFastOpenQueueLen = 0,
       SocketDeferAccept = False \<rparr>"

text \<open>\<open>os.Signal\<close> values; \<open>Signal n\<close> stands for any other signal number.\<close>

datatype Signal = SIGHUP | SIGINT | SIGQUIT | SIGABRT | SIGTERM | Signal nat

definition os_Interrupt :: Signal where
  "os_Interrupt = SIGINT"

text \<open>
  The calls the package makes on its collaborators, in the order it makes them: the
  log of a run. \<open>'h\<close> is the type of request handlers.
\<close>

datatype 'h effect =
    ResolveTCPAddr string
  | NewServer string
  | SetLoops int
  | SetWorkerpoolShards int
  | SetAllowThreadLocking bool
  | SetBallast int
  | SetRequestHandler 'h
  | SetListenConfig ListenConfig
  | Notify "Signal list"
  | Shutdown int

text \<open>\<open>type Server struct { *tcpserver.Server }\<close>\<close>

datatype 'e Server = Server 'e

section \<open>The options\<close>

text \<open>
  \<open>func init()\<close>: the package-level \<open>default_host\<close> is what \<open>UnmarshalText\<close> makes of
  \<open>"127.0.0.1"\<close>; a parse error panics.
\<close>

definition init :: "'e platform \<Rightarrow> IP result" where
  "init env =
     (case net_IP_UnmarshalText env ''127.0.0.1'' of
        Inl err \<Rightarrow> Panic
      | Inr ip \<Rightarrow> Ok ip)"

text \<open>
  The options take the value of the global \<open>default_host\<close> as a parameter where they
  read it. A parameter that would clash with a field name is shortened.
\<close>

definition WithHost :: "'e platform \<Rightarrow> IP \<Rightarrow> string \<Rightarrow> 'h Option" where
  "WithHost env default_host h =
     Some (\<lambda>opts.
       if h = '''' \<or> h = ''localhost'' then (opts\<lparr>host := Some default_host\<rparr>, None)
       else (case net_IP_UnmarshalText env h of
               Inl err \<Rightarrow> (opts, Some err)
             | Inr ip \<Rightarrow> (opts\<lparr>host := Some ip\<rparr>, None)))"

definition WithPort :: "int \<Rightarrow> 'h Option" where
  "WithPort p =
     Some (\<lambda>opts.
       if p < 0 then (opts, Some (Errorf ''port cannot be less than zero''))
       else (opts\<lparr>port := Some p\<rparr>, None))"

definition WithSocketReusePort :: "bool \<Rightarrow> 'h Option" where
  "WithSocketReusePort enable = Some (\<lambda>opts. (opts\<lparr>socketReusePort := Some enable\<rparr>, None))"

definition WithSocketFastOpen :: "bool \<Rightarrow> 'h Option" where
  "WithSocketFastOpen enable = Some (\<lambda>opts. (opts\<lparr>socketFastOpen := Some enable\<rparr>, None))"

definition WithSocketFastOpenQueueLen :: "int \<Rightarrow> 'h Option" where
  "WithSocketFastOpenQueueLen len =
     Some (\<lambda>opts.
       if len < 0 then (opts, Some (Errorf ''queue length cannot be less than zero''))
       else (opts\<lparr>socketFastOpenQueueLen := Some len\<rparr>, None))"

definition WithSocketDeferAccept :: "bool \<Rightarrow> 'h Option" where
  "WithSocketDeferAccept enable = Some (\<lambda>opts. (opts\<lparr>socketDeferAccept := Some enable\<rparr>, None))"

definition WithLoops :: "int \<Rightarrow> 'h Option" where
  "WithLoops n = Some (\<lambda>opts. (opts\<lparr>loops := Some n\<rparr>, None))"

definition WithWorkerpoolShards :: "int \<Rightarrow> 'h Option" where
  "WithWorkerpoolShards shards = Some (\<lambda>opts. (opts\<lparr>workerpoolShards := Some shards\<rparr>, None))"

definition WithAllowThreadLocking :: "bool \<Rightarrow> 'h Option" where
  "WithAllowThreadLocking enable =
     Some (\<lambda>opts. (opts\<lparr>allowThreadLocking := Some enable\<rparr>, None))"

definition WithBallast :: "int \<Rightarrow> 'h Option" where
  "WithBallast sizeInMiB =
     Some (\<lambda>opts.
       if sizeInMiB \<le> 0 then (opts, Some (Errorf ''ballast cannot be less than or equal to zero''))
       else (opts\<lparr>ballast := Some sizeInMiB\<rparr>, None))"

text \<open>The handler is a function value: a nil \<open>f\<close> (\<open>None\<close>) leaves the field nil.\<close>

definition WithRequestHandler :: "'h option \<Rightarrow> 'h Option" where
  "WithRequestHandler f = Some (\<lambda>opts. (opts\<lparr>handler := f\<rparr>, None))"

section \<open>New\<close>

text \<open>
  The call \<open>option(&opt)\<close>: the record as the call leaves it and the returned error.
  Calling a nil function value panics: \<open>None\<close>.
\<close>

definition call :: "'h Option \<Rightarrow> 'h options \<Rightarrow> ('h options \<times> error option) option" where
  "call option opt = (case option of None \<Rightarrow> None | Some f \<Rightarrow> Some (f opt))"

text \<open>
  The loop of \<open>New\<close> over \<open>opts\<close>: each option is called on \<open>&opt\<close> in turn, and the
  first error returns at once.
\<close>

fun apply_options :: "'h Option list \<Rightarrow> 'h options \<Rightarrow> 'h options result" where
  "apply_options [] opt = Ok opt"
| "apply_options (option # rest) opt =
     (case call option opt of
        None \<Rightarrow> Panic
      | Some (opt', Some err) \<Rightarrow> Err err
      | Some (opt', None) \<Rightarrow> apply_options rest opt')"

text \<open>
  \<open>%d\<close> of \<open>fmt.Sprintf\<close>: the decimal digits of the number, with a minus sign for a
  negative one.
\<close>

fun decimal :: "nat \<Rightarrow> string" where
  "decimal n =
     (if n < 10 then [''0123456789'' ! n]
      else decimal (n div 10) @ [''0123456789'' ! (n mod 10)])"

declare decimal.simps [simp del]

definition format_d :: "int \<Rightarrow> string" where
  "format_d i = (if i < 0 then CHR ''-'' # decimal (nat (- i)) else decimal (nat i))"

text \<open>
  Lines 50 to 59 of \<open>New\<close>: the host is the option's or the default, the port is the
  option's or 0, and the address is \<open>fmt.Sprintf("%s:%d", *host, port)\<close>.
\<close>

definition listen_address :: "'e platform \<Rightarrow> IP \<Rightarrow> 'h options \<Rightarrow> string" where
  "listen_address env default_host opt =
     (let h = (case host opt of None \<Rightarrow> default_host | Some ip \<Rightarrow> ip);
          p = (case port opt of None \<Rightarrow> 0 | Some n \<Rightarrow> n)
      in net_IP_String env h @ '':'' @ format_d p)"

text \<open>
  Lines 69 to 78 of \<open>New\<close>: the listen configuration starts as the zero value and
  receives the three fields the code copies.
\<close>

definition listen_config :: "'h options \<Rightarrow> ListenConfig" where
  "listen_config opt =
     (let cfg = new_ListenConfig;
          cfg = (case socketReusePort opt of None \<Rightarrow> cfg
                 | Some b \<Rightarrow> cfg\<lparr>SocketReusePort := b\<rparr>);
          cfg = (case socketFastOpen opt of None \<Rightarrow> cfg
                 | Some b \<Rightarrow> cfg\<lparr>SocketFastOpen := b\<rparr>);
          cfg = (case socketFastOpenQueueLen opt of None \<Rightarrow> cfg
                 | Some n \<Rightarrow> cfg\<lparr>SocketFastOpenQueueLen := n\<rparr>)
      in cfg)"

text \<open>
  Lines 79 to 99 of \<open>New\<close>: the calls made on the new engine object, in order. Each
  tuning call is guarded by its field being non-nil; \<open>SetListenConfig\<close> is always made.
\<close>

definition configure :: "'h options \<Rightarrow> 'h effect list" where
  "configure opt =
     (case loops opt of None \<Rightarrow> [] | Some n \<Rightarrow> [SetLoops n]) @
     (case workerpoolShards opt of None \<Rightarrow> [] | Some n \<Rightarrow> [SetWorkerpoolShards n]) @
     (case allowThreadLocking opt of None \<Rightarrow> [] | Some b \<Rightarrow> [SetAllowThreadLocking b]) @
     (case ballast opt of None \<Rightarrow> [] | Some n \<Rightarrow> [SetBallast n]) @
     (case handler opt of None \<Rightarrow> [] | Some f \<Rightarrow> [SetRequestHandler f]) @
     [SetListenConfig (listen_config opt)]"

text \<open>Whether a call on the engine panics instead of returning.\<close>

definition engine_panics :: "'e platform \<Rightarrow> 'h effect \<Rightarrow> bool" where
  "engine_panics env c =
     (case c of SetBallast sizeInMiB \<Rightarrow> tcpserver_SetBallast_panics env sizeInMiB | _ \<Rightarrow> False)"

text \<open>
  Making calls one after the other: a call that panics is made, and ends the run, so
  the calls after it are not made. The result is the calls made and whether all of
  them returned.
\<close>

fun run_calls :: "('c \<Rightarrow> bool) \<Rightarrow> 'c list \<Rightarrow> 'c list \<times> bool" where
  "run_calls panics [] = ([], True)"
| "run_calls panics (c # cs) =
     (if panics c then ([c], False)
      else (case run_calls panics cs of (made, returned) \<Rightarrow> (c # made, returned)))"

text \<open>
  \<open>func New(opts ...Option) (*Server, error)\<close>. The result is the log of the calls made
  on the collaborators together with the returned pair: \<open>Ok\<close> is a non-nil server with
  a nil error, \<open>Err\<close> is a nil server with that error. \<open>New\<close> recovers from no panic:
  when a call on the engine panics, so does \<open>New\<close>.
\<close>

definition New ::
  "'e platform \<Rightarrow> IP \<Rightarrow> 'h Option list \<Rightarrow> 'h effect list \<times> 'e Server result" where
  "New env default_host opts =
     (case apply_options opts zero_options of
        Panic \<Rightarrow> ([], Panic)
      | Err err \<Rightarrow> ([], Err err)
      | Ok opt \<Rightarrow>
          (let address = listen_address env default_host opt in
           case net_ResolveTCPAddr env address of
             Some err \<Rightarrow>
               ([ResolveTCPAddr address], Err (ErrorfW ''validate tcp server address'' err))
           | None \<Rightarrow>
               (case tcpserver_NewServer env address of
                  Inl err \<Rightarrow>
                    ([ResolveTCPAddr address, NewServer address],
                     Err (ErrorfW ''creates a new server instance'' err))
                | Inr srv \<Rightarrow>
                    (case run_calls (engine_panics env) (configure opt) of
                       (made, returned) \<Rightarrow>
                         ([ResolveTCPAddr address, NewServer address] @ made,
                          if returned then Ok (Server srv) else Panic)))))"

section \<open>AwaitStopSignal\<close>

text \<open>The signals handed to \<open>signal.Notify\<close>, as the call lists them.\<close>

definition notify_signals :: "Signal list" where
  "notify_signals = [os_Interrupt, SIGINT, SIGTERM, SIGHUP, SIGQUIT, SIGABRT]"

text \<open>
  \<open>sig := <-c\<close> on the channel that \<open>signal.Notify\<close> feeds. The signals delivered to the
  process after the registration are the input, in their order of delivery; the
  channel relays the registered ones only, so the receive yields the first registered
  signal. When none is ever delivered the receive blocks for ever: \<open>None\<close>.
\<close>

fun receive :: "Signal list \<Rightarrow> Signal list \<Rightarrow> Signal option" where
  "receive registered [] = None"
| "receive registered (s # delivered) =
     (if s \<in> set registered then Some s else receive registered delivered)"

text \<open>
  \<open>func (s *Server) AwaitStopSignal(stopTimeout time.Duration) (os.Signal, error)\<close>.
  The result is the log of the calls and, when the method returns, the returned pair.
\<close>

definition AwaitStopSignal ::
  "'e platform \<Rightarrow> 'e Server \<Rightarrow> int \<Rightarrow> Signal list \<Rightarrow>
     'h effect list \<times> (Signal \<times> error option) option" where
  "AwaitStopSignal env s stopTimeout delivered =
     (case s of Server srv \<Rightarrow>
        (case receive notify_signals delivered of
           None \<Rightarrow> ([Notify notify_signals], None)
         | Some sig \<Rightarrow>
             ([Notify notify_signals, Shutdown stopTimeout],
              Some (sig, tcpserver_Shutdown env srv stopTimeout))))"

section \<open>The options a caller can write\<close>

text \<open>
  \<open>options\<close> is not exported, so outside the package an \<open>Option\<close> is nil or the result
  of one of the eleven constructors. \<open>setting\<close> names the constructor calls, and
  \<open>option_of\<close> gives the \<open>Option\<close> each call returns.
\<close>

datatype 'h setting =
    Host string
  | Port int
  | ReusePort bool
  | FastOpen bool
  | FastOpenQueueLen int
  | DeferAccept bool
  | Loops int
  | WorkerpoolShards int
  | AllowThreadLocking bool
  | Ballast int
  | RequestHandler "'h option"

fun option_of :: "'e platform \<Rightarrow> IP \<Rightarrow> 'h setting \<Rightarrow> 'h Option" where
  "option_of env default_host (Host h) = WithHost env default_host h"
| "option_of env default_host (Port p) = WithPort p"
| "option_of env default_host (ReusePort b) = WithSocketReusePort b"
| "option_of env default_host (FastOpen b) = WithSocketFastOpen b"
| "option_of env default_host (FastOpenQueueLen n) = WithSocketFastOpenQueueLen n"
| "option_of env default_host (DeferAccept b) = WithSocketDeferAccept b"
| "option_of env default_host (Loops n) = WithLoops n"
| "option_of env default_host (WorkerpoolShards n) = WithWorkerpoolShards n"
| "option_of env default_host (AllowThreadLocking b) = WithAllowThreadLocking b"
| "option_of env default_host (Ballast n) = WithBallast n"
| "option_of env default_host (RequestHandler f) = WithRequestHandler f"

section \<open>Last write wins, as the specification words it\<close>

text \<open>
  The specification's reading of the built configuration: each field holds the value
  written by the last option of the sequence that sets that field, and is unset when
  no option sets it. \<open>spec_last_write w ss\<close> is what the last element of \<open>ss\<close> that
  writes (according to \<open>w\<close>) has written.
\<close>

fun spec_last_write :: "('a \<Rightarrow> 'b option) \<Rightarrow> 'a list \<Rightarrow> 'b option" where
  "spec_last_write w [] = None"
| "spec_last_write w (x # xs) =
     (case spec_last_write w xs of Some v \<Rightarrow> Some v | None \<Rightarrow> w x)"

text \<open>What each kind of option writes, field by field.\<close>

fun spec_writes_host :: "'e platform \<Rightarrow> IP \<Rightarrow> 'h setting \<Rightarrow> IP option" where
  "spec_writes_host env default_host (Host h) =
     (if h = '''' \<or> h = ''localhost'' then Some default_host
      else (case net_IP_UnmarshalText env h of Inl err \<Rightarrow> None | Inr ip \<Rightarrow> Some ip))"
| "spec_writes_host env default_host _ = None"

fun spec_writes_port :: "'h setting \<Rightarrow> int option" where
  "spec_writes_port (Port p) = Some p"
| "spec_writes_port _ = None"

fun spec_writes_socketReusePort :: "'h setting \<Rightarrow> bool option" where
  "spec_writes_socketReusePort (ReusePort b) = Some b"
| "spec_writes_socketReusePort _ = None"

fun spec_writes_socketFastOpen :: "'h setting \<Rightarrow> bool option" where
  "spec_writes_socketFastOpen (FastOpen b) = Some b"
| "spec_writes_socketFastOpen _ = None"

fun spec_writes_socketFastOpenQueueLen :: "'h setting \<Rightarrow> int option" where
  "spec_writes_socketFastOpenQueueLen (FastOpenQueueLen n) = Some n"
| "spec_writes_socketFastOpenQueueLen _ = None"

fun spec_writes_socketDeferAccept :: "'h setting \<Rightarrow> bool option" where
  "spec_writes_socketDeferAccept (DeferAccept b) = Some b"
| "spec_writes_socketDeferAccept _ = None"

fun spec_writes_loops :: "'h setting \<Rightarrow> int option" where
  "spec_writes_loops (Loops n) = Some n"
| "spec_writes_loops _ = None"

fun spec_writes_workerpoolShards :: "'h setting \<Rightarrow> int option" where
  "spec_writes_workerpoolShards (WorkerpoolShards n) = Some n"
| "spec_writes_workerpoolShards _ = None"

fun spec_writes_allowThreadLocking :: "'h setting \<Rightarrow> bool option" where
  "spec_writes_allowThreadLocking (AllowThreadLocking b) = Some b"
| "spec_writes_allowThreadLocking _ = None"

fun spec_writes_ballast :: "'h setting \<Rightarrow> int option" where
  "spec_writes_ballast (Ballast n) = Some n"
| "spec_writes_ballast _ = None"

text \<open>The handler option writes the function value it is given, nil included.\<close>

fun spec_writes_handler :: "'h setting \<Rightarrow> 'h option option" where
  "spec_writes_handler (RequestHandler f) = Some f"
| "spec_writes_handler _ = None"

definition spec_last_write_wins :: "'e platform \<Rightarrow> IP \<Rightarrow> 'h setting list \<Rightarrow> 'h options" where
  "spec_last_write_wins env default_host ss =
     \<lparr> host = spec_last_write (spec_writes_host env default_host) ss,
       port = spec_last_write spec_writes_port ss,
       socketReusePort = spec_last_write spec_writes_socketReusePort ss,
       socketFastOpen = spec_last_write spec_writes_socketFastOpen ss,
       socketFastOpenQueueLen = spec_last_write spec_writes_socketFastOpenQueueLen ss,
       socketDeferAccept = spec_last_write spec_writes_socketDeferAccept ss,
       loops = spec_last_write spec_writes_loops ss,
       workerpoolShards = spec_last_write spec_writes_workerpoolShards ss,
       allowThreadLocking = spec_last_write spec_writes_allowThreadLocking ss,
       ballast = spec_last_write spec_writes_ballast ss,
       handler = (case spec_last_write spec_writes_handler ss of None \<Rightarrow> None | Some f \<Rightarrow> f) \<rparr>"

section \<open>A sample platform\<close>

text \<open>
  A platform to run the package on: a net package that knows dotted-decimal IPv4
  literals only and resolves no names, and an engine whose \<open>NewServer\<close> accepts what
  \<open>ResolveTCPAddr\<close> accepts, whose \<open>SetBallast\<close> panics when the size in bytes, computed
  in 64-bit signed arithmetic, is negative or beyond a 48-bit address space, and whose
  \<open>Shutdown\<close> reports a timeout when it is given no time. Every theorem below holds for
  any platform; this one supplies concrete runs.
\<close>

text \<open>\<open>sizeInMiB*1024*1024\<close> as a Go \<open>int\<close>: the product wraps around at 64 bits.\<close>

definition ballast_bytes :: "int \<Rightarrow> int" where
  "ballast_bytes sizeInMiB = (sizeInMiB * 1024 * 1024 + 2 ^ 63) mod 2 ^ 64 - 2 ^ 63"

definition sample_SetBallast_panics :: "int \<Rightarrow> bool" where
  "sample_SetBallast_panics sizeInMiB =
     (ballast_bytes sizeInMiB < 0 \<or> 2 ^ 48 < ballast_bytes sizeInMiB)"

definition digit_of :: "char \<Rightarrow> nat option" where
  "digit_of c =
     map_of [(CHR ''0'', 0), (CHR ''1'', 1), (CHR ''2'', 2), (CHR ''3'', 3), (CHR ''4'', 4),
             (CHR ''5'', 5), (CHR ''6'', 6), (CHR ''7'', 7), (CHR ''8'', 8), (CHR ''9'', 9)] c"

fun number_of :: "string \<Rightarrow> nat \<Rightarrow> nat option" where
  "number_of [] acc = Some acc"
| "number_of (c # cs) acc =
     (case digit_of c of None \<Rightarrow> None | Some d \<Rightarrow> number_of cs (10 * acc + d))"

fun fields :: "char \<Rightarrow> string \<Rightarrow> string list" where
  "fields sep [] = [[]]"
| "fields sep (c # cs) =
     (if c = sep then [] # fields sep cs
      else (case fields sep cs of [] \<Rightarrow> [[c]] | w # ws \<Rightarrow> (c # w) # ws))"

text \<open>One to three digits, no leading zero, at most 255.\<close>

definition octet :: "string \<Rightarrow> nat option" where
  "octet s =
     (if s = [] \<or> 3 < length s \<or> (1 < length s \<and> hd s = CHR ''0'') then None
      else (case number_of s 0 of
              None \<Rightarrow> None
            | Some n \<Rightarrow> if n \<le> 255 then Some n else None))"

definition v4InV6Prefix :: IP where
  "v4InV6Prefix = [0, 0, 0, 0, 0, 0, 0, 0, 0, 0, 0xff, 0xff]"

definition parse_ipv4 :: "string \<Rightarrow> IP option" where
  "parse_ipv4 s =
     (case map octet (fields CHR ''.'' s) of
        [Some a, Some b, Some c, Some d] \<Rightarrow>
          Some (v4InV6Prefix @ [of_nat a, of_nat b, of_nat c, of_nat d])
      | _ \<Rightarrow> None)"

definition sample_UnmarshalText :: "string \<Rightarrow> error + IP" where
  "sample_UnmarshalText text =
     (if text = [] then Inr []
      else (case parse_ipv4 text of
              None \<Rightarrow> Inl (ParseError ''IP address'' text)
            | Some ip \<Rightarrow> Inr ip))"

definition sample_String :: "IP \<Rightarrow> string" where
  "sample_String ip =
     (if ip = [] then ''<nil>''
      else if length ip = 16 \<and> take 12 ip = v4InV6Prefix then
        decimal (unat (ip ! 12)) @ ''.'' @ decimal (unat (ip ! 13)) @ ''.'' @
        decimal (unat (ip ! 14)) @ ''.'' @ decimal (unat (ip ! 15))
      else ''?'')"

text \<open>The text before the last colon and the text after it; \<open>None\<close> without a colon.\<close>

definition split_host_port :: "string \<Rightarrow> (string \<times> string) option" where
  "split_host_port a =
     (let after = rev (takeWhile (\<lambda>c. c \<noteq> CHR '':'') (rev a))
      in if length after = length a then None
         else Some (take (length a - length after - 1) a, after))"

definition sample_ResolveTCPAddr :: "string \<Rightarrow> error option" where
  "sample_ResolveTCPAddr a =
     (case split_host_port a of
        None \<Rightarrow> Some (AddrError ''missing port in address'' a)
      | Some (h, p) \<Rightarrow>
          (if h \<noteq> [] \<and> parse_ipv4 h = None then Some (AddrError ''no such host'' h)
           else (case (if p = [] then None else number_of p 0) of
                   None \<Rightarrow> Some (AddrError ''invalid port'' p)
                 | Some n \<Rightarrow> if n \<le> 65535 then None else Some (AddrError ''invalid port'' p))))"

definition sample_platform :: "string platform" where
  "sample_platform =
     \<lparr> net_IP_UnmarshalText = sample_UnmarshalText,
       net_IP_String = sample_String,
       net_ResolveTCPAddr = sample_ResolveTCPAddr,
       tcpserver_NewServer =
         (\<lambda>a. case sample_ResolveTCPAddr a of Some err \<Rightarrow> Inl err | None \<Rightarrow> Inr a),
       tcpserver_SetBallast_panics = sample_SetBallast_panics,
       tcpserver_Shutdown =
         (\<lambda>srv d. if d \<le> 0 then Some (Errorf ''shutdown timed out'') else None) \<rparr>"

text \<open>The loopback address as the sample platform parses it.\<close>

definition loopback :: IP where
  "loopback = v4InV6Prefix @ [127, 0, 0, 1]"

section \<open>Runs of the sample platform\<close>

lemma sample_init: "init sample_platform = Ok loopback"
  by (simp add: init_def sample_platform_def sample_UnmarshalText_def parse_ipv4_def
      octet_def digit_of_def loopback_def)

lemma sample_String_loopback: "net_IP_String sample_platform loopback = ''127.0.0.1''"
  by (simp add: sample_platform_def sample_String_def loopback_def v4InV6Prefix_def
      decimal.simps)

lemma sample_resolve_any_port: "net_ResolveTCPAddr sample_platform ''127.0.0.1:0'' = None"
  by (simp add: sample_platform_def sample_ResolveTCPAddr_def split_host_port_def
      parse_ipv4_def octet_def digit_of_def)

lemma sample_resolve_big_port:
  "net_ResolveTCPAddr sample_platform ''127.0.0.1:70000'' =
     Some (AddrError ''invalid port'' ''70000'')"
  by (simp add: sample_platform_def sample_ResolveTCPAddr_def split_host_port_def
      parse_ipv4_def octet_def digit_of_def)

lemma sample_NewServer_any_port:
  "tcpserver_NewServer sample_platform ''127.0.0.1:0'' = Inr ''127.0.0.1:0''"
  by (simp add: sample_platform_def sample_ResolveTCPAddr_def split_host_port_def
      parse_ipv4_def octet_def digit_of_def)

lemma sample_unmarshal_name:
  "net_IP_UnmarshalText sample_platform ''example.org'' =
     Inl (ParseError ''IP address'' ''example.org'')"
  by (simp add: sample_platform_def sample_UnmarshalText_def parse_ipv4_def octet_def
      digit_of_def)

lemma sample_Shutdown_no_time:
  "tcpserver_Shutdown sample_platform ''127.0.0.1:0'' 0 = Some (Errorf ''shutdown timed out'')"
  by (simp add: sample_platform_def)



lemma format_d_0: "format_d 0 = ''0''"
  by (simp add: format_d_def decimal.simps)

lemma format_d_70000: "format_d 70000 = ''70000''"
  by (simp add: format_d_def decimal.simps)

section \<open>The option loop and the calls of New\<close>

lemmas With_defs =
  call_def WithHost_def WithPort_def WithSocketReusePort_def WithSocketFastOpen_def
  WithSocketFastOpenQueueLen_def WithSocketDeferAccept_def WithLoops_def
  WithWorkerpoolShards_def WithAllowThreadLocking_def WithBallast_def WithRequestHandler_def

lemmas New_defs =
  New_def Let_def listen_address_def configure_def listen_config_def new_ListenConfig_def
  zero_options_def engine_panics_def

lemma apply_options_append:
  "apply_options before opt0 = Ok opt \<Longrightarrow>
   apply_options (before @ rest) opt0 = apply_options rest opt"
  by (induction before arbitrary: opt0)
     (auto split: option.splits prod.splits result.splits)

lemma call_WithHost_localhost:
  "call (WithHost env default_host ''localhost'') opt
     = Some (opt\<lparr>host := Some default_host\<rparr>, None)"
  by (simp add: call_def WithHost_def)

lemma call_WithPort:
  "call (WithPort p) opt =
     (if p < 0 then Some (opt, Some (Errorf ''port cannot be less than zero''))
      else Some (opt\<lparr>port := Some p\<rparr>, None))"
  by (simp add: call_def WithPort_def)

text \<open>The listen configuration never has defer-accept on, whatever the options say.\<close>

lemma listen_config_defer_accept: "SocketDeferAccept (listen_config opt) = False"
  by (simp add: listen_config_def new_ListenConfig_def Let_def split: option.splits)


lemma configure_no_create:
  "ResolveTCPAddr a \<notin> set (configure opt)" "NewServer a \<notin> set (configure opt)"
  by (simp_all add: configure_def split: option.splits)

text \<open>
  The calls made are an initial part of the calls to make, and all of them when every
  call returns.
\<close>

lemma run_calls_made:
  "run_calls p cs = (made, returned) \<Longrightarrow>
   count_list made x \<le> count_list cs x \<and> set made \<subseteq> set cs \<and> (returned \<longrightarrow> made = cs)"
  by (induction cs arbitrary: made returned) (auto split: if_splits prod.splits)

lemma run_calls_configure_no_create:
  "run_calls p (configure opt) = (made, returned) \<Longrightarrow> NewServer a \<in> set made \<Longrightarrow> False"
  using run_calls_made [of p "configure opt" made returned] configure_no_create(2) [of a opt]
  by auto



section \<open>The channel receive\<close>

lemma set_notify_signals:
  "set notify_signals = {SIGINT, SIGTERM, SIGHUP, SIGQUIT, SIGABRT}"
  by (simp add: notify_signals_def os_Interrupt_def)

lemma receive_none: "set ds \<inter> set regs = {} \<Longrightarrow> receive regs ds = None"
  by (induction ds) auto

lemma receive_first:
  "set before \<inter> set regs = {} \<Longrightarrow> s \<in> set regs \<Longrightarrow>
   receive regs (before @ s # after) = Some s"
  by (induction before) auto

section \<open>Properties of the options\<close>

text \<open>
  C1. The listen configuration handed to the engine should carry the defer-accept
  value of the options, as it carries reuse-port and fast-open. It does not: in the run
  below the three options are set to true, and the configuration given to
  \<open>SetListenConfig\<close> has reuse-port and fast-open on and defer-accept off, because
  \<open>New\<close> never reads the \<open>socketDeferAccept\<close> field.
\<close>

theorem New_defer_accept_dropped:
  "New sample_platform loopback
     [WithSocketReusePort True, WithSocketFastOpen True, WithSocketDeferAccept True]
   = ([ResolveTCPAddr ''127.0.0.1:0'', NewServer ''127.0.0.1:0'',
       SetListenConfig \<lparr> SocketReusePort = True, SocketFastOpen = True,
         SocketFastOpenQueueLen = 0, SocketDeferAccept = False \<rparr>] :: unit effect list,
      Ok (Server ''127.0.0.1:0''))"
  by (simp add: New_defs With_defs sample_String_loopback format_d_0
      sample_resolve_any_port sample_NewServer_any_port)

text \<open>
  C2. Positivity of the loops and workerpoolShards fields does not hold:
  \<open>WithLoops(0)\<close> and \<open>WithWorkerpoolShards(-2)\<close> return no error and leave a
  non-positive value in their field.
\<close>

theorem WithLoops_WithWorkerpoolShards_counterexample:
  "call (WithLoops 0) (zero_options :: unit options)
     = Some (zero_options\<lparr>loops := Some 0\<rparr>, None) \<and>
   call (WithWorkerpoolShards (- 2)) (zero_options :: unit options)
     = Some (zero_options\<lparr>workerpoolShards := Some (- 2)\<rparr>, None)"
  by (simp add: call_def WithLoops_def WithWorkerpoolShards_def)

text \<open>
  C2, amended. The options returned by \<open>WithLoops(n)\<close> and \<open>WithWorkerpoolShards(n)\<close>
  never return an error and store \<open>n\<close> itself in their field, for every integer \<open>n\<close>:
  the stored value is positive exactly when \<open>n\<close> is.
\<close>

theorem WithLoops_WithWorkerpoolShards_store:
  "call (WithLoops n) opt = Some (opt\<lparr>loops := Some n\<rparr>, None) \<and>
   call (WithWorkerpoolShards n) opt = Some (opt\<lparr>workerpoolShards := Some n\<rparr>, None)"
  by (simp add: call_def WithLoops_def WithWorkerpoolShards_def)

text \<open>
  C3. When the options before some option all return without error and that option
  returns an error, \<open>New\<close> returns that error with a nil server, has called none of its
  collaborators, and the result does not depend on the options that follow: they are
  never called (a nil option among them would panic if it were).
\<close>

theorem New_first_error:
  assumes "apply_options before zero_options = Ok opt"
    and "call option opt = Some (opt', Some err)"
  shows "New env default_host (before @ option # rest) = ([], Err err)"
  using assms by (simp add: New_def apply_options_append)

theorem New_first_error_witness:
  "apply_options [WithHost sample_platform loopback ''localhost''] (zero_options :: unit options)
     = Ok (zero_options\<lparr>host := Some loopback\<rparr>) \<and>
   call (WithPort (- 1)) ((zero_options :: unit options)\<lparr>host := Some loopback\<rparr>)
     = Some (zero_options\<lparr>host := Some loopback\<rparr>,
             Some (Errorf ''port cannot be less than zero'')) \<and>
   New sample_platform loopback
     ([WithHost sample_platform loopback ''localhost''] @ WithPort (- 1) # [None, WithLoops 3])
     = ([] :: unit effect list, Err (Errorf ''port cannot be less than zero''))"
proof -
  have h1: "apply_options [WithHost sample_platform loopback ''localhost'']
      (zero_options :: unit options) = Ok (zero_options\<lparr>host := Some loopback\<rparr>)"
    by (simp add: call_WithHost_localhost)
  have h2: "call (WithPort (- 1)) ((zero_options :: unit options)\<lparr>host := Some loopback\<rparr>)
      = Some (zero_options\<lparr>host := Some loopback\<rparr>,
              Some (Errorf ''port cannot be less than zero''))"
    by (simp add: call_WithPort)
  show ?thesis
    using h1 h2
      New_first_error [OF h1 h2, of sample_platform loopback "[None, WithLoops 3]"]
    by simp
qed

text \<open>
  C4. Let \<open>default_host\<close> be the value \<open>init\<close> made of \<open>"127.0.0.1"\<close>. For the host text
  \<open>""\<close> or \<open>"localhost"\<close> the option returned by \<open>WithHost\<close> returns no error and sets
  the host to \<open>default_host\<close>; for any other text that \<open>UnmarshalText\<close> rejects it returns
  that error and leaves the record as it found it.
\<close>

theorem WithHost_default_or_error:
  assumes "init env = Ok default_host"
  shows "net_IP_UnmarshalText env ''127.0.0.1'' = Inr default_host \<and>
    (h = '''' \<or> h = ''localhost'' \<longrightarrow>
       call (WithHost env default_host h) opt = Some (opt\<lparr>host := Some default_host\<rparr>, None)) \<and>
    (h \<noteq> '''' \<and> h \<noteq> ''localhost'' \<and> net_IP_UnmarshalText env h = Inl err \<longrightarrow>
       call (WithHost env default_host h) opt = Some (opt, Some err))"
  using assms by (auto simp: init_def call_def WithHost_def split: sum.splits)

theorem WithHost_default_or_error_witness:
  "init sample_platform = Ok loopback \<and>
   net_IP_UnmarshalText sample_platform ''127.0.0.1'' = Inr loopback \<and>
   call (WithHost sample_platform loopback '''') (zero_options :: unit options)
     = Some (zero_options\<lparr>host := Some loopback\<rparr>, None) \<and>
   call (WithHost sample_platform loopback ''localhost'') (zero_options :: unit options)
     = Some (zero_options\<lparr>host := Some loopback\<rparr>, None) \<and>
   net_IP_UnmarshalText sample_platform ''example.org''
     = Inl (ParseError ''IP address'' ''example.org'') \<and>
   call (WithHost sample_platform loopback ''example.org'') (zero_options :: unit options)
     = Some (zero_options, Some (ParseError ''IP address'' ''example.org''))"
  using sample_init sample_unmarshal_name
    WithHost_default_or_error [OF sample_init, of "''''" "zero_options :: unit options"]
    WithHost_default_or_error [OF sample_init, of "''localhost''" "zero_options :: unit options"]
    WithHost_default_or_error [OF sample_init, of "''example.org''" "zero_options :: unit options"
      "ParseError ''IP address'' ''example.org''"]
  by simp

section \<open>The built configuration\<close>

text \<open>
  Field by field: after the loop has run over a sequence of constructor calls without
  error, a field holds what the last call that writes it has written, or what it held
  before the loop when no call writes it.
\<close>

lemma last_write_host:
  "apply_options (map (option_of env default_host) ss) opt0 = Ok cfg \<Longrightarrow>
   host cfg = (case spec_last_write (spec_writes_host env default_host) ss of
                Some v \<Rightarrow> Some v | None \<Rightarrow> host opt0)"
proof (induction ss arbitrary: opt0)
  case Nil
  then show ?case by simp
next
  case (Cons x xs)
  then show ?case
    by (cases x) (auto simp: With_defs split: option.splits if_splits sum.splits)
qed

lemma last_write_port:
  "apply_options (map (option_of env default_host) ss) opt0 = Ok cfg \<Longrightarrow>
   port cfg = (case spec_last_write spec_writes_port ss of
                Some v \<Rightarrow> Some v | None \<Rightarrow> port opt0)"
proof (induction ss arbitrary: opt0)
  case Nil
  then show ?case by simp
next
  case (Cons x xs)
  then show ?case
    by (cases x) (auto simp: With_defs split: option.splits if_splits sum.splits)
qed

lemma last_write_socketReusePort:
  "apply_options (map (option_of env default_host) ss) opt0 = Ok cfg \<Longrightarrow>
   socketReusePort cfg = (case spec_last_write spec_writes_socketReusePort ss of
                Some v \<Rightarrow> Some v | None \<Rightarrow> socketReusePort opt0)"
proof (induction ss arbitrary: opt0)
  case Nil
  then show ?case by simp
next
  case (Cons x xs)
  then show ?case
    by (cases x) (auto simp: With_defs split: option.splits if_splits sum.splits)
qed

lemma last_write_socketFastOpen:
  "apply_options (map (option_of env default_host) ss) opt0 = Ok cfg \<Longrightarrow>
   socketFastOpen cfg = (case spec_last_write spec_writes_socketFastOpen ss of
                Some v \<Rightarrow> Some v | None \<Rightarrow> socketFastOpen opt0)"
proof (induction ss arbitrary: opt0)
  case Nil
  then show ?case by simp
next
  case (Cons x xs)
  then show ?case
    by (cases x) (auto simp: With_defs split: option.splits if_splits sum.splits)
qed

lemma last_write_socketFastOpenQueueLen:
  "apply_options (map (option_of env default_host) ss) opt0 = Ok cfg \<Longrightarrow>
   socketFastOpenQueueLen cfg = (case spec_last_write spec_writes_socketFastOpenQueueLen ss of
                Some v \<Rightarrow> Some v | None \<Rightarrow> socketFastOpenQueueLen opt0)"
proof (induction ss arbitrary: opt0)
  case Nil
  then show ?case by simp
next
  case (Cons x xs)
  then show ?case
    by (cases x) (auto simp: With_defs split: option.splits if_splits sum.splits)
qed

lemma last_write_socketDeferAccept:
  "apply_options (map (option_of env default_host) ss) opt0 = Ok cfg \<Longrightarrow>
   socketDeferAccept cfg = (case spec_last_write spec_writes_socketDeferAccept ss of
                Some v \<Rightarrow> Some v | None \<Rightarrow> socketDeferAccept opt0)"
proof (induction ss arbitrary: opt0)
  case Nil
  then show ?case by simp
next
  case (Cons x xs)
  then show ?case
    by (cases x) (auto simp: With_defs split: option.splits if_splits sum.splits)
qed

lemma last_write_loops:
  "apply_options (map (option_of env default_host) ss) opt0 = Ok cfg \<Longrightarrow>
   loops cfg = (case spec_last_write spec_writes_loops ss of
                Some v \<Rightarrow> Some v | None \<Rightarrow> loops opt0)"
proof (induction ss arbitrary: opt0)
  case Nil
  then show ?case by simp
next
  case (Cons x xs)
  then show ?case
    by (cases x) (auto simp: With_defs split: option.splits if_splits sum.splits)
qed

lemma last_write_workerpoolShards:
  "apply_options (map (option_of env default_host) ss) opt0 = Ok cfg \<Longrightarrow>
   workerpoolShards cfg = (case spec_last_write spec_writes_workerpoolShards ss of
                Some v \<Rightarrow> Some v | None \<Rightarrow> workerpoolShards opt0)"
proof (induction ss arbitrary: opt0)
  case Nil
  then show ?case by simp
next
  case (Cons x xs)
  then show ?case
    by (cases x) (auto simp: With_defs split: option.splits if_splits sum.splits)
qed

lemma last_write_allowThreadLocking:
  "apply_options (map (option_of env default_host) ss) opt0 = Ok cfg \<Longrightarrow>
   allowThreadLocking cfg = (case spec_last_write spec_writes_allowThreadLocking ss of
                Some v \<Rightarrow> Some v | None \<Rightarrow> allowThreadLocking opt0)"
proof (induction ss arbitrary: opt0)
  case Nil
  then show ?case by simp
next
  case (Cons x xs)
  then show ?case
    by (cases x) (auto simp: With_defs split: option.splits if_splits sum.splits)
qed

lemma last_write_ballast:
  "apply_options (map (option_of env default_host) ss) opt0 = Ok cfg \<Longrightarrow>
   ballast cfg = (case spec_last_write spec_writes_ballast ss of
                Some v \<Rightarrow> Some v | None \<Rightarrow> ballast opt0)"
proof (induction ss arbitrary: opt0)
  case Nil
  then show ?case by simp
next
  case (Cons x xs)
  then show ?case
    by (cases x) (auto simp: With_defs split: option.splits if_splits sum.splits)
qed

lemma last_write_handler:
  "apply_options (map (option_of env default_host) ss) opt0 = Ok cfg \<Longrightarrow>
   handler cfg = (case spec_last_write spec_writes_handler ss of
                Some f \<Rightarrow> f | None \<Rightarrow> handler opt0)"
proof (induction ss arbitrary: opt0)
  case Nil
  then show ?case by simp
next
  case (Cons x xs)
  then show ?case
    by (cases x) (auto simp: With_defs split: option.splits if_splits sum.splits)
qed

text \<open>
  C5. For every sequence of constructor calls that \<open>New\<close> applies without error, the
  built configuration is the one the specification describes: every one of the eleven
  fields holds the value written by the last option of the sequence that sets the
  field, and is unset when none does.
\<close>

theorem New_last_write_wins:
  assumes "apply_options (map (option_of env default_host) ss) zero_options = Ok cfg"
  shows "cfg = spec_last_write_wins env default_host ss"
proof (rule options.equality)
  show "host cfg = host (spec_last_write_wins env default_host ss)"
    using last_write_host [OF assms]
    by (simp add: spec_last_write_wins_def zero_options_def split: option.splits)
  show "port cfg = port (spec_last_write_wins env default_host ss)"
    using last_write_port [OF assms]
    by (simp add: spec_last_write_wins_def zero_options_def split: option.splits)
  show "socketReusePort cfg = socketReusePort (spec_last_write_wins env default_host ss)"
    using last_write_socketReusePort [OF assms]
    by (simp add: spec_last_write_wins_def zero_options_def split: option.splits)
  show "socketFastOpen cfg = socketFastOpen (spec_last_write_wins env default_host ss)"
    using last_write_socketFastOpen [OF assms]
    by (simp add: spec_last_write_wins_def zero_options_def split: option.splits)
  show "socketFastOpenQueueLen cfg = socketFastOpenQueueLen (spec_last_write_wins env default_host ss)"
    using last_write_socketFastOpenQueueLen [OF assms]
    by (simp add: spec_last_write_wins_def zero_options_def split: option.splits)
  show "socketDeferAccept cfg = socketDeferAccept (spec_last_write_wins env default_host ss)"
    using last_write_socketDeferAccept [OF assms]
    by (simp add: spec_last_write_wins_def zero_options_def split: option.splits)
  show "loops cfg = loops (spec_last_write_wins env default_host ss)"
    using last_write_loops [OF assms]
    by (simp add: spec_last_write_wins_def zero_options_def split: option.splits)
  show "workerpoolShards cfg = workerpoolShards (spec_last_write_wins env default_host ss)"
    using last_write_workerpoolShards [OF assms]
    by (simp add: spec_last_write_wins_def zero_options_def split: option.splits)
  show "allowThreadLocking cfg = allowThreadLocking (spec_last_write_wins env default_host ss)"
    using last_write_allowThreadLocking [OF assms]
    by (simp add: spec_last_write_wins_def zero_options_def split: option.splits)
  show "ballast cfg = ballast (spec_last_write_wins env default_host ss)"
    using last_write_ballast [OF assms]
    by (simp add: spec_last_write_wins_def zero_options_def split: option.splits)
  show "handler cfg = handler (spec_last_write_wins env default_host ss)"
    using last_write_handler [OF assms]
    by (simp add: spec_last_write_wins_def zero_options_def split: option.splits)
  show "options.more cfg = options.more (spec_last_write_wins env default_host ss)"
    by simp
qed

theorem New_last_write_wins_witness:
  "apply_options
     (map (option_of sample_platform loopback)
        [Port 80, Host ''localhost'', Loops 4, Port 8080, RequestHandler (Some ()),
         Loops 2, RequestHandler None, Port 443])
     zero_options
   = Ok \<lparr> host = Some loopback, port = Some 443, socketReusePort = None,
          socketFastOpen = None, socketFastOpenQueueLen = None, socketDeferAccept = None,
          loops = Some 2, workerpoolShards = None, allowThreadLocking = None,
          ballast = None, handler = None \<rparr> \<and>
   spec_last_write_wins sample_platform loopback
     [Port 80, Host ''localhost'', Loops 4, Port 8080, RequestHandler (Some ()),
      Loops 2, RequestHandler None, Port 443]
   = \<lparr> host = Some loopback, port = Some 443, socketReusePort = None,
       socketFastOpen = None, socketFastOpenQueueLen = None, socketDeferAccept = None,
       loops = Some 2, workerpoolShards = None, allowThreadLocking = None,
       ballast = None, handler = None \<rparr>"
proof -
  have run: "apply_options
     (map (option_of sample_platform loopback)
        [Port 80, Host ''localhost'', Loops 4, Port 8080, RequestHandler (Some ()),
         Loops 2, RequestHandler None, Port 443])
     zero_options
   = Ok \<lparr> host = Some loopback, port = Some 443, socketReusePort = None,
          socketFastOpen = None, socketFastOpenQueueLen = None, socketDeferAccept = None,
          loops = Some 2, workerpoolShards = None, allowThreadLocking = None,
          ballast = None, handler = None \<rparr>"
    by (simp add: With_defs zero_options_def)
  show ?thesis
    using run New_last_write_wins [OF run] by simp
qed

section \<open>Properties of New\<close>

text \<open>
  C6. In every run of \<open>New\<close>, a call of \<open>NewServer\<close> comes directly after the call of
  \<open>ResolveTCPAddr\<close> on the same address, and only when that call returned no error.
  When the validation of the synthesized address fails, the log of the run is that one
  call: no engine object is created, and \<open>New\<close> returns a nil server with the error
  wrapped as an address-validation error.
\<close>

theorem New_validates_before_creating:
  assumes "New env default_host opts = (log, r)"
  shows "(\<forall>a. NewServer a \<in> set log \<longrightarrow>
            net_ResolveTCPAddr env a = None \<and>
            (\<exists>rest. log = ResolveTCPAddr a # NewServer a # rest)) \<and>
         (\<forall>opt err. apply_options opts zero_options = Ok opt \<and>
            net_ResolveTCPAddr env (listen_address env default_host opt) = Some err \<longrightarrow>
            log = [ResolveTCPAddr (listen_address env default_host opt)] \<and>
            r = Err (ErrorfW ''validate tcp server address'' err))"
  using assms
  by (auto simp: New_def Let_def
      split: result.splits option.splits sum.splits prod.splits if_splits
      dest: run_calls_configure_no_create)

theorem New_validates_before_creating_witness:
  "New sample_platform loopback [WithPort 70000]
     = ([ResolveTCPAddr ''127.0.0.1:70000''] :: unit effect list,
        Err (ErrorfW ''validate tcp server address'' (AddrError ''invalid port'' ''70000''))) \<and>
   apply_options [WithPort 70000] (zero_options :: unit options)
     = Ok (zero_options\<lparr>port := Some 70000\<rparr>) \<and>
   listen_address sample_platform loopback ((zero_options :: unit options)\<lparr>port := Some 70000\<rparr>)
     = ''127.0.0.1:70000'' \<and>
   net_ResolveTCPAddr sample_platform ''127.0.0.1:70000''
     = Some (AddrError ''invalid port'' ''70000'') \<and>
   NewServer ''127.0.0.1:70000'' \<notin> set ([ResolveTCPAddr ''127.0.0.1:70000''] :: unit effect list)"
proof -
  have a: "apply_options [WithPort 70000] (zero_options :: unit options)
      = Ok (zero_options\<lparr>port := Some 70000\<rparr>)"
    by (simp add: call_WithPort)
  have b: "listen_address sample_platform loopback
      ((zero_options :: unit options)\<lparr>port := Some 70000\<rparr>) = ''127.0.0.1:70000''"
    by (simp add: listen_address_def zero_options_def sample_String_loopback format_d_70000)
  have run: "New sample_platform loopback [WithPort 70000]
      = ([ResolveTCPAddr ''127.0.0.1:70000''] :: unit effect list,
         Err (ErrorfW ''validate tcp server address'' (AddrError ''invalid port'' ''70000'')))"
    using a b by (simp add: New_def Let_def sample_resolve_big_port)
  show ?thesis
    using a b run sample_resolve_big_port New_validates_before_creating [OF run]
    by simp
qed

text \<open>
  C7. For every \<open>sizeInMiB \<le> 0\<close> the option returned by \<open>WithBallast(sizeInMiB)\<close>
  returns the configuration error and leaves the record as it found it, the ballast
  field included; for every \<open>sizeInMiB > 0\<close> it returns no error and sets the ballast
  field to \<open>sizeInMiB\<close>.
\<close>

theorem WithBallast_validates:
  "call (WithBallast sizeInMiB) opt =
     (if sizeInMiB \<le> 0
      then Some (opt, Some (Errorf ''ballast cannot be less than or equal to zero''))
      else Some (opt\<lparr>ballast := Some sizeInMiB\<rparr>, None))"
  by (simp add: call_def WithBallast_def)

section \<open>Properties of AwaitStopSignal\<close>

text \<open>
  C8. \<open>AwaitStopSignal(stopTimeout)\<close> registers for exactly the interrupt, terminate,
  hangup, quit and abort signals. As long as none of them has been delivered it has
  not returned and has not called \<open>Shutdown\<close>; on the first of them it calls
  \<open>Shutdown(stopTimeout)\<close> once and returns that signal together with what this call
  returned. Signals delivered later play no part.
\<close>

theorem AwaitStopSignal_first_signal:
  assumes "set before \<inter> {SIGINT, SIGTERM, SIGHUP, SIGQUIT, SIGABRT} = {}"
    and "sig \<in> {SIGINT, SIGTERM, SIGHUP, SIGQUIT, SIGABRT}"
  shows "set notify_signals = {SIGINT, SIGTERM, SIGHUP, SIGQUIT, SIGABRT} \<and>
    AwaitStopSignal env (Server srv) stopTimeout before
      = ([Notify notify_signals] :: 'h effect list, None) \<and>
    AwaitStopSignal env (Server srv) stopTimeout (before @ sig # after) =
      ([Notify notify_signals, Shutdown stopTimeout] :: 'h effect list,
       Some (sig, tcpserver_Shutdown env srv stopTimeout))"
proof -
  have d: "set before \<inter> set notify_signals = {}" and m: "sig \<in> set notify_signals"
    using assms by (simp_all only: set_notify_signals)
  show ?thesis
    using receive_none [OF d] receive_first [OF d m]
    by (simp add: AwaitStopSignal_def set_notify_signals)
qed

theorem AwaitStopSignal_first_signal_witness:
  "set [Signal 10, Signal 28] \<inter> {SIGINT, SIGTERM, SIGHUP, SIGQUIT, SIGABRT} = {} \<and>
   SIGTERM \<in> {SIGINT, SIGTERM, SIGHUP, SIGQUIT, SIGABRT} \<and>
   AwaitStopSignal sample_platform (Server ''127.0.0.1:0'') 0 [Signal 10, Signal 28]
     = ([Notify notify_signals] :: unit effect list, None) \<and>
   AwaitStopSignal sample_platform (Server ''127.0.0.1:0'') 0
       ([Signal 10, Signal 28] @ SIGTERM # [SIGINT, SIGHUP])
     = ([Notify notify_signals, Shutdown 0] :: unit effect list,
        Some (SIGTERM, Some (Errorf ''shutdown timed out'')))"
proof -
  have a: "set [Signal 10, Signal 28] \<inter> {SIGINT, SIGTERM, SIGHUP, SIGQUIT, SIGABRT} = {}"
    by simp
  have b: "SIGTERM \<in> {SIGINT, SIGTERM, SIGHUP, SIGQUIT, SIGABRT}"
    by simp
  have run: "set notify_signals = {SIGINT, SIGTERM, SIGHUP, SIGQUIT, SIGABRT} \<and>
      AwaitStopSignal sample_platform (Server ''127.0.0.1:0'') 0 [Signal 10, Signal 28]
        = ([Notify notify_signals] :: unit effect list, None) \<and>
      AwaitStopSignal sample_platform (Server ''127.0.0.1:0'') 0
          ([Signal 10, Signal 28] @ SIGTERM # [SIGINT, SIGHUP])
        = ([Notify notify_signals, Shutdown 0] :: unit effect list,
           Some (SIGTERM, tcpserver_Shutdown sample_platform ''127.0.0.1:0'' 0))"
    by (rule AwaitStopSignal_first_signal [OF a b])
  show ?thesis
    using a b sample_Shutdown_no_time run by simp
qed

section \<open>The engine calls of New\<close>




text \<open>
  C10. On a platform where \<open>init\<close> made \<open>default_host\<close> of \<open>"127.0.0.1"\<close>, where that
  address prints as \<open>"127.0.0.1"\<close>, and where \<open>ResolveTCPAddr\<close> and \<open>NewServer\<close>
  accept \<open>"127.0.0.1:0"\<close>: \<open>New\<close> without options validates the address
  \<open>"127.0.0.1:0"\<close> (the default host and port 0), makes no tuning call, hands the zero
  listen configuration to the engine and returns a server with a nil error.
\<close>

theorem New_no_options:
  assumes "init env = Ok default_host"
    and "net_IP_String env default_host = ''127.0.0.1''"
    and "net_ResolveTCPAddr env ''127.0.0.1:0'' = None"
    and "tcpserver_NewServer env ''127.0.0.1:0'' = Inr srv"
  shows "listen_address env default_host (zero_options :: 'h options) = ''127.0.0.1:0'' \<and>
         New env default_host [] =
           ([ResolveTCPAddr ''127.0.0.1:0'', NewServer ''127.0.0.1:0'',
             SetListenConfig new_ListenConfig] :: 'h effect list, Ok (Server srv))"
proof -
  have a: "listen_address env default_host (zero_options :: 'h options) = ''127.0.0.1:0''"
    using assms(2) by (simp add: listen_address_def zero_options_def format_d_0)
  have "configure (zero_options :: 'h options) = [SetListenConfig new_ListenConfig]"
    by (simp add: configure_def listen_config_def zero_options_def)
  with a assms(3,4) show ?thesis
    by (simp add: New_def Let_def engine_panics_def)
qed

theorem New_no_options_witness:
  "init sample_platform = Ok loopback \<and>
   net_IP_String sample_platform loopback = ''127.0.0.1'' \<and>
   net_ResolveTCPAddr sample_platform ''127.0.0.1:0'' = None \<and>
   tcpserver_NewServer sample_platform ''127.0.0.1:0'' = Inr ''127.0.0.1:0'' \<and>
   listen_address sample_platform loopback (zero_options :: unit options) = ''127.0.0.1:0'' \<and>
   New sample_platform loopback [] =
     ([ResolveTCPAddr ''127.0.0.1:0'', NewServer ''127.0.0.1:0'',
       SetListenConfig new_ListenConfig] :: unit effect list, Ok (Server ''127.0.0.1:0''))"
proof -
  have run: "listen_address sample_platform loopback (zero_options :: unit options)
        = ''127.0.0.1:0'' \<and>
      New sample_platform loopback [] =
        ([ResolveTCPAddr ''127.0.0.1:0'', NewServer ''127.0.0.1:0'',
          SetListenConfig new_ListenConfig] :: unit effect list, Ok (Server ''127.0.0.1:0''))"
    by (rule New_no_options [OF sample_init sample_String_loopback sample_resolve_any_port
          sample_NewServer_any_port])
  show ?thesis
    using sample_init sample_String_loopback sample_resolve_any_port
      sample_NewServer_any_port run
    by simp
qed

end
